theory Spec2Isabelle
  imports Main "HOL-Library.Word"
begin

section \<open>MD\_Gamepad: the joystick shield library (src/MD\_Gamepad.h)\<close>

text \<open>
  The library is one C++ class, \<open>MD_Gamepad\<close>, whose methods read seven digital
  switches and two analog axes through the Arduino core. The class is embedded as a
  record of its data members and one HOL function per method. A method that changes a
  member takes the object and returns the object it leaves behind, next to its result.
  Member names lose their leading underscore, which an Isabelle identifier cannot have.
\<close>

subsection \<open>Machine types\<close>

text \<open>
  The fixed-width types of the source are words of that width. A signed member is the
  same word read with \<open>sint\<close>, an unsigned one with \<open>uint\<close> or \<open>unat\<close>.
\<close>

type_synonym uint8_t = "8 word"
type_synonym uint16_t = "16 word"
type_synonym uint32_t = "32 word"
type_synonym int8_t = "8 word"
type_synonym int16_t = "16 word"

subsection \<open>The Arduino core, as far as the class uses it\<close>

text \<open>
  \<open>Arduino.h\<close> is not part of the repository, so what the class takes from it is a
  parameter of the model:
  \<^item> \<open>A0\<close> and \<open>A1\<close>, the board's numbers of its first two analog pins;
  \<^item> \<open>digitalRead\<close>, the level each pin shows when the call reads it (a method reads
    a pin at most once);
  \<^item> \<open>analogRead\<close>, the sample each analog pin gives when the call reads it. It is a
    C \<open>int\<close>, 16 or 32 bits wide according to the board, so the sample is an \<open>int\<close>
    here and the conversions to the 16-bit members are written out where they happen;
  \<^item> \<open>millis()\<close>, the free-running millisecond counter, an unsigned 32-bit value.
    A method reads it more than once and the counter may have moved in between, so
    every read is an argument of its own, in the order of the reads.
\<close>

datatype level = LOW | HIGH

datatype pin_mode = INPUT | OUTPUT | INPUT_PULLUP

record arduino =
  A0 :: uint8_t
  A1 :: uint8_t
  digitalRead :: "uint8_t \<Rightarrow> level"
  analogRead :: "uint8_t \<Rightarrow> int"

subsection \<open>Constants and data members\<close>

definition DEFAULT_DELAY :: uint16_t where
  "DEFAULT_DELAY = 100"

definition DEFAULT_DB :: uint8_t where
  "DEFAULT_DB = 5"

definition PIN_A :: uint8_t where "PIN_A = 2"
definition PIN_B :: uint8_t where "PIN_B = 3"
definition PIN_C :: uint8_t where "PIN_C = 4"
definition PIN_D :: uint8_t where "PIN_D = 5"
definition PIN_E :: uint8_t where "PIN_E = 6"
definition PIN_F :: uint8_t where "PIN_F = 7"
definition PIN_K :: uint8_t where "PIN_K = 8"

definition PIN_X :: "arduino \<Rightarrow> uint8_t" where
  "PIN_X hw = A0 hw"

definition PIN_Y :: "arduino \<Rightarrow> uint8_t" where
  "PIN_Y hw = A1 hw"

datatype switch_t =
  SW_NONE | SW_A | SW_B | SW_C | SW_D | SW_E | SW_F | SW_K | SW_X | SW_Y

record pin2sw_t =
  pin :: uint8_t
  sw :: switch_t

text \<open>
  The lookup table \<open>_pinDigital\<close> is a member with a default initialiser that no
  method writes, so it is a constant list here, in the order of its declaration.
\<close>

definition pinDigital :: "pin2sw_t list" where
  "pinDigital =
    [ \<lparr>pin = PIN_A, sw = SW_A\<rparr>, \<lparr>pin = PIN_B, sw = SW_B\<rparr>, \<lparr>pin = PIN_C, sw = SW_C\<rparr>,
      \<lparr>pin = PIN_D, sw = SW_D\<rparr>, \<lparr>pin = PIN_E, sw = SW_E\<rparr>, \<lparr>pin = PIN_F, sw = SW_F\<rparr>,
      \<lparr>pin = PIN_K, sw = SW_K\<rparr> ]"

record MD_Gamepad =
  timeLastDigital :: uint32_t
  timeLastAnalog :: uint32_t
  timeBetweenReads :: uint16_t
  deadband :: uint8_t
  offsetX :: uint16_t
  offsetY :: uint16_t
  valueX :: int16_t
  valueY :: int16_t

text \<open>
  The library declares one global instance, \<open>MD_Gamepad gamepad;\<close>. It has static
  storage and no constructor, so every member without an initialiser starts at zero.
\<close>

definition gamepad :: MD_Gamepad where
  "gamepad = \<lparr> timeLastDigital = 0, timeLastAnalog = 0, timeBetweenReads = 0,
               deadband = 0, offsetX = 0, offsetY = 0, valueX = 0, valueY = 0 \<rparr>"

subsection \<open>begin\<close>

text \<open>
  \<open>pinMode\<close> writes the board's pin configuration, a map from pin numbers to modes
  that \<open>begin\<close> takes and returns (the function is \<open>begin'\<close> here, \<open>begin\<close>
  being a keyword). The loop over the table sets one pin per turn.
  Its counter is a \<open>uint8_t\<close> that stays below the table's seven entries, so a
  \<open>nat\<close> counts the same.
\<close>

function begin_pins :: "nat \<Rightarrow> (uint8_t \<rightharpoonup> pin_mode) \<Rightarrow> (uint8_t \<rightharpoonup> pin_mode)" where
  "begin_pins i modes =
     (if i < length pinDigital
      then begin_pins (Suc i) (modes(pin (pinDigital ! i) \<mapsto> INPUT_PULLUP))
      else modes)"
  by pat_completeness auto
termination
  by (relation "measure (\<lambda>(i, modes). length pinDigital - i)") auto

declare begin_pins.simps [simp del]

text \<open>
  \<open>_offsetX = analogRead(PIN_X)\<close> stores an \<open>int\<close> in a \<open>uint16_t\<close>: the value
  modulo \<open>2 ^ 16\<close>, which is \<open>word_of_int\<close>.
\<close>

definition begin' :: "arduino \<Rightarrow> (uint8_t \<rightharpoonup> pin_mode) \<Rightarrow> MD_Gamepad
    \<Rightarrow> (uint8_t \<rightharpoonup> pin_mode) \<times> MD_Gamepad" where
  "begin' hw modes g =
     (let modes1 = begin_pins 0 modes;
          modes2 = modes1(PIN_X hw \<mapsto> INPUT);
          modes3 = modes2(PIN_Y hw \<mapsto> INPUT);
          g1 = g\<lparr>timeBetweenReads := DEFAULT_DELAY\<rparr>;
          g2 = g1\<lparr>deadband := DEFAULT_DB\<rparr>;
          g3 = g2\<lparr>offsetX := word_of_int (analogRead hw (PIN_X hw))\<rparr>;
          g4 = g3\<lparr>offsetY := word_of_int (analogRead hw (PIN_Y hw))\<rparr>
      in (modes3, g4))"

subsection \<open>setReadDelay\<close>

definition setReadDelay :: "uint16_t \<Rightarrow> MD_Gamepad \<Rightarrow> MD_Gamepad" where
  "setReadDelay d g = g\<lparr>timeBetweenReads := d\<rparr>"

subsection \<open>getSwitch and anyKey\<close>

text \<open>
  The scan loop of \<open>getSwitch\<close>, from index \<open>i\<close> on: it returns at the first
  table entry whose pin reads \<open>LOW\<close>, and \<open>SW_NONE\<close> when it runs off the table.
\<close>

function getSwitch_scan :: "arduino \<Rightarrow> nat \<Rightarrow> switch_t" where
  "getSwitch_scan hw i =
     (if i < length pinDigital
      then (if digitalRead hw (pin (pinDigital ! i)) = LOW
            then sw (pinDigital ! i)
            else getSwitch_scan hw (Suc i))
      else SW_NONE)"
  by pat_completeness auto
termination
  by (relation "measure (\<lambda>(hw, i). length pinDigital - i)") auto

declare getSwitch_scan.simps [simp del]

text \<open>
  In \<open>millis() - _timeLastDigital < _timeBetweenReads\<close> the difference is taken in
  unsigned 32-bit arithmetic and the 16-bit interval is widened to it (\<open>ucast\<close>).
  \<open>t_gate\<close> is what \<open>millis()\<close> returns in the test, \<open>t_now\<close> what it returns in
  the assignment that follows.
\<close>

definition getSwitch :: "arduino \<Rightarrow> uint32_t \<Rightarrow> uint32_t \<Rightarrow> MD_Gamepad
    \<Rightarrow> switch_t \<times> MD_Gamepad" where
  "getSwitch hw t_gate t_now g =
     (if t_gate - timeLastDigital g < ucast (timeBetweenReads g)
      then (SW_NONE, g)
      else (let g1 = g\<lparr>timeLastDigital := t_now\<rparr>
            in (getSwitch_scan hw 0, g1)))"

definition anyKey :: "arduino \<Rightarrow> uint32_t \<Rightarrow> uint32_t \<Rightarrow> MD_Gamepad
    \<Rightarrow> bool \<times> MD_Gamepad" where
  "anyKey hw t_gate t_now g =
     (let (r, g1) = getSwitch hw t_gate t_now g in (r \<noteq> SW_NONE, g1))"

subsection \<open>getJoystickValue and getJoystickDirection\<close>

text \<open>
  \<open>_valueX = analogRead(PIN_X) - _offsetX\<close> subtracts a \<open>uint16_t\<close> from an
  \<open>int\<close> and stores the difference in an \<open>int16_t\<close>. Whether \<open>int\<close> has 16 bits
  (the operands become unsigned and the difference wraps) or 32 (the difference is
  exact and the store truncates it), the member receives the difference modulo
  \<open>2 ^ 16\<close>: the 16-bit word \<open>word_of_int sample - offset\<close>.

  \<open>abs(_valueX) < _deadband\<close> compares two values promoted to \<open>int\<close>, the first
  through Arduino's macro \<open>abs\<close>. The model compares the integers
  \<open>\<bar>sint v\<bar>\<close> and \<open>uint db\<close>. That is the macro's result for every \<open>v\<close> but
  \<open>-32768\<close> on a board whose \<open>int\<close> has 16 bits, where the negation overflows; a
  difference of two samples of an ADC of up to 15 bits never has that value.

  The \<open>switch\<close> has cases for \<open>SW_X\<close> and \<open>SW_Y\<close> only; any other selector
  falls through to \<open>return(0)\<close>, after the timestamp has been written.
\<close>

definition getJoystickValue :: "arduino \<Rightarrow> uint32_t \<Rightarrow> uint32_t \<Rightarrow> switch_t
    \<Rightarrow> MD_Gamepad \<Rightarrow> int16_t \<times> MD_Gamepad" where
  "getJoystickValue hw t_gate t_now sel g =
     (if t_gate - timeLastAnalog g < ucast (timeBetweenReads g)
      then ((if sel = SW_X then valueX g else valueY g), g)
      else (let g1 = g\<lparr>timeLastAnalog := t_now\<rparr> in
            (case sel of
               SW_X \<Rightarrow>
                 (let g2 = g1\<lparr>valueX := word_of_int (analogRead hw (PIN_X hw)) - offsetX g1\<rparr>;
                      g3 = (if \<bar>sint (valueX g2)\<bar> < uint (deadband g2)
                            then g2\<lparr>valueX := 0\<rparr> else g2)
                  in (valueX g3, g3))
             | SW_Y \<Rightarrow>
                 (let g2 = g1\<lparr>valueY := word_of_int (analogRead hw (PIN_Y hw)) - offsetY g1\<rparr>;
                      g3 = (if \<bar>sint (valueY g2)\<bar> < uint (deadband g2)
                            then g2\<lparr>valueY := 0\<rparr> else g2)
                  in (valueY g3, g3))
             | _ \<Rightarrow> (0, g1))))"

text \<open>
  \<open>getJoystickDirection\<close> reads the clock for its own test (\<open>t_dir\<close>) and then
  calls \<open>getJoystickValue\<close>, which reads it again for its test and its timestamp.
  The result is an \<open>int8_t\<close>, so \<open>-1\<close> is the word \<open>255\<close>.
\<close>

definition getJoystickDirection :: "arduino \<Rightarrow> uint32_t \<Rightarrow> uint32_t \<Rightarrow> uint32_t
    \<Rightarrow> switch_t \<Rightarrow> MD_Gamepad \<Rightarrow> int8_t \<times> MD_Gamepad" where
  "getJoystickDirection hw t_dir t_gate t_now sel g =
     (if t_dir - timeLastAnalog g < ucast (timeBetweenReads g)
      then (0, g)
      else (let (v, g1) = getJoystickValue hw t_gate t_now sel g
            in ((if v = 0 then 0 else (if sint v < 0 then - 1 else 1)), g1)))"

subsection \<open>Callers\<close>

text \<open>
  A caller that asks for the same axis several times in a row. Each call has its own
  readings of the board and of the clock; the values come back in the order of the
  calls, with the object the last call leaves.
\<close>

fun getJoystickValue_calls :: "(arduino \<times> uint32_t \<times> uint32_t) list \<Rightarrow> switch_t
    \<Rightarrow> MD_Gamepad \<Rightarrow> int16_t list \<times> MD_Gamepad" where
  "getJoystickValue_calls [] sel g = ([], g)"
| "getJoystickValue_calls ((hw, t_gate, t_now) # cs) sel g =
     (let (v, g1) = getJoystickValue hw t_gate t_now sel g;
          (vs, g2) = getJoystickValue_calls cs sel g1
      in (v # vs, g2))"

text \<open>
  The data members are private, so a caller reaches the object through the public
  methods only. \<open>call\<close> lists them with their arguments, \<open>call_method\<close> runs one
  of them on the board's pin configuration and the object, and \<open>run_calls\<close> runs a
  sequence of calls, each with the readings of the board and the three clock values it
  may consume.
\<close>

datatype call =
  Begin
  | SetReadDelay uint16_t
  | AnyKey
  | GetSwitch
  | GetJoystickDirection switch_t
  | GetJoystickValue switch_t

fun call_method :: "call \<Rightarrow> arduino \<Rightarrow> uint32_t \<times> uint32_t \<times> uint32_t
    \<Rightarrow> (uint8_t \<rightharpoonup> pin_mode) \<times> MD_Gamepad \<Rightarrow> (uint8_t \<rightharpoonup> pin_mode) \<times> MD_Gamepad" where
  "call_method Begin hw (t1, t2, t3) (modes, g) = begin' hw modes g"
| "call_method (SetReadDelay d) hw (t1, t2, t3) (modes, g) = (modes, setReadDelay d g)"
| "call_method AnyKey hw (t1, t2, t3) (modes, g) = (modes, snd (anyKey hw t1 t2 g))"
| "call_method GetSwitch hw (t1, t2, t3) (modes, g) = (modes, snd (getSwitch hw t1 t2 g))"
| "call_method (GetJoystickDirection sel) hw (t1, t2, t3) (modes, g) =
     (modes, snd (getJoystickDirection hw t1 t2 t3 sel g))"
| "call_method (GetJoystickValue sel) hw (t1, t2, t3) (modes, g) =
     (modes, snd (getJoystickValue hw t1 t2 sel g))"

fun run_calls :: "(call \<times> arduino \<times> uint32_t \<times> uint32_t \<times> uint32_t) list
    \<Rightarrow> (uint8_t \<rightharpoonup> pin_mode) \<times> MD_Gamepad \<Rightarrow> (uint8_t \<rightharpoonup> pin_mode) \<times> MD_Gamepad" where
  "run_calls [] st = st"
| "run_calls ((c, hw, ts) # cs) st = run_calls cs (call_method c hw ts st)"

text \<open>The calls that read an input: every method but \<open>begin\<close> and \<open>setReadDelay\<close>.\<close>

fun is_read :: "call \<Rightarrow> bool" where
  "is_read Begin = False"
| "is_read (SetReadDelay d) = False"
| "is_read AnyKey = True"
| "is_read GetSwitch = True"
| "is_read (GetJoystickDirection sel) = True"
| "is_read (GetJoystickValue sel) = True"

subsection \<open>The specification's arithmetic\<close>

text \<open>
  The specification describes a sample in integers: subtract the zero-offset from the
  raw reading, then force the result to 0 when its absolute value is below the deadband.
\<close>

definition zero_adjusted :: "int \<Rightarrow> int \<Rightarrow> int \<Rightarrow> int" where
  "zero_adjusted raw offset db =
     (let adjusted = raw - offset in if \<bar>adjusted\<bar> < db then 0 else adjusted)"

text \<open>
  It describes the elapsed time as the difference of two timestamps modulo \<open>2 ^ 32\<close>.
\<close>

definition elapsed_spec :: "uint32_t \<Rightarrow> uint32_t \<Rightarrow> int" where
  "elapsed_spec now stamp = (uint now - uint stamp) mod 2 ^ 32"

subsection \<open>A board on the bench\<close>

text \<open>
  Concrete inputs for the instances below: a board with the Uno's analog pin numbers,
  the listed digital pins held low and the two axes at the given samples; and the
  library's global object after \<open>begin\<close> on a board at rest, the axes reading 512
  and 508.
\<close>

definition bench :: "uint8_t list \<Rightarrow> int \<Rightarrow> int \<Rightarrow> arduino" where
  "bench pressed x y =
     \<lparr> A0 = 14, A1 = 15,
       digitalRead = (\<lambda>p. if p \<in> set pressed then LOW else HIGH),
       analogRead = (\<lambda>p. if p = 14 then x else if p = 15 then y else 0) \<rparr>"

definition started :: MD_Gamepad where
  "started = snd (begin' (bench [] 512 508) Map.empty gamepad)"

text \<open>
  The same object after one sample of the Y axis at time 100, which reads 520 and so
  caches 12; the object after the same sample and a poll of the switches, both taken
  ten milliseconds before the clock wraps; and a sequence of four reading calls.
\<close>

definition sampled :: MD_Gamepad where
  "sampled = snd (getJoystickValue (bench [] 512 520) 100 100 SW_Y started)"

definition wrapped :: MD_Gamepad where
  "wrapped =
     snd (getSwitch (bench [] 512 520) 4294967286 4294967286
       (snd (getJoystickValue (bench [] 512 520) 4294967286 4294967286 SW_Y started)))"

definition polls :: "(call \<times> arduino \<times> uint32_t \<times> uint32_t \<times> uint32_t) list" where
  "polls = [ (GetSwitch, bench [PIN_A] 512 508, 200, 200, 200),
             (GetJoystickValue SW_X, bench [] 530 508, 200, 200, 200),
             (GetJoystickDirection SW_Y, bench [] 530 400, 400, 400, 400),
             (AnyKey, bench [] 512 508, 400, 400, 400) ]"

text \<open>
  The global object after \<open>begin\<close>, the four reading calls, \<open>setReadDelay(20)\<close>
  and one more call for the X axis at time 410, inside the new interval.
\<close>

definition configured :: MD_Gamepad where
  "configured =
     snd (run_calls [(GetJoystickValue SW_X, bench [] 512 508, 410, 410, 410)]
       (Map.empty, setReadDelay 20
          (snd (run_calls polls (begin' (bench [] 512 508) Map.empty gamepad)))))"

section \<open>Properties\<close>

subsection \<open>Auxiliary facts\<close>

lemma started_eq:
  "started = \<lparr> timeLastDigital = 0, timeLastAnalog = 0, timeBetweenReads = 100,
               deadband = 5, offsetX = 512, offsetY = 508, valueX = 0, valueY = 0 \<rparr>"
  by (simp add: started_def begin'_def gamepad_def bench_def PIN_X_def PIN_Y_def
      DEFAULT_DELAY_def DEFAULT_DB_def)

lemma sampled_eq:
  "sampled = \<lparr> timeLastDigital = 0, timeLastAnalog = 100, timeBetweenReads = 100,
               deadband = 5, offsetX = 512, offsetY = 508, valueX = 0, valueY = 12 \<rparr>"
  by (simp add: sampled_def started_eq getJoystickValue_def bench_def PIN_Y_def)

lemma wrapped_eq:
  "wrapped = \<lparr> timeLastDigital = 4294967286, timeLastAnalog = 4294967286,
               timeBetweenReads = 100, deadband = 5, offsetX = 512, offsetY = 508,
               valueX = 0, valueY = 12 \<rparr>"
  by (simp add: wrapped_def started_eq getSwitch_def getJoystickValue_def bench_def PIN_Y_def)

lemma configured_eq:
  "configured = \<lparr> timeLastDigital = 400, timeLastAnalog = 400, timeBetweenReads = 20,
                  deadband = 5, offsetX = 512, offsetY = 508, valueX = 18, valueY = - 108 \<rparr>"
  by (simp add: configured_def polls_def begin'_def gamepad_def bench_def PIN_X_def PIN_Y_def
      DEFAULT_DELAY_def DEFAULT_DB_def setReadDelay_def getSwitch_def anyKey_def
      getJoystickValue_def getJoystickDirection_def split_beta)

text \<open>The scan loop finds the first entry of the table, from \<open>i\<close> on, whose pin is low.\<close>

lemma getSwitch_scan_find:
  "getSwitch_scan hw i =
     (case find (\<lambda>e. digitalRead hw (pin e) = LOW) (drop i pinDigital) of
        None \<Rightarrow> SW_NONE | Some e \<Rightarrow> sw e)"
proof (induction hw i rule: getSwitch_scan.induct)
  case (1 hw i)
  show ?case
  proof (cases "i < length pinDigital")
    case True
    then have d: "drop i pinDigital = pinDigital ! i # drop (Suc i) pinDigital"
      by (simp add: Cons_nth_drop_Suc)
    show ?thesis
      using True "1.IH" by (subst getSwitch_scan.simps) (simp add: d)
  next
    case False
    then show ?thesis by (subst getSwitch_scan.simps) simp
  qed
qed

lemma getSwitch_scan_0:
  "getSwitch_scan hw 0 =
     (if digitalRead hw PIN_A = LOW then SW_A
      else if digitalRead hw PIN_B = LOW then SW_B
      else if digitalRead hw PIN_C = LOW then SW_C
      else if digitalRead hw PIN_D = LOW then SW_D
      else if digitalRead hw PIN_E = LOW then SW_E
      else if digitalRead hw PIN_F = LOW then SW_F
      else if digitalRead hw PIN_K = LOW then SW_K
      else SW_NONE)"
  by (simp add: getSwitch_scan_find pinDigital_def)

lemma getSwitch_scan_bench:
  "getSwitch_scan (bench [PIN_A] x y) 0 = SW_A"
  "getSwitch_scan (bench [PIN_B] x y) 0 = SW_B"
  by (simp_all add: getSwitch_scan_0 bench_def PIN_A_def PIN_B_def PIN_C_def PIN_D_def
      PIN_E_def PIN_F_def PIN_K_def)

text \<open>
  A difference that fits 16 signed bits survives the conversions of
  \<open>analogRead(PIN) - _offset\<close>.
\<close>

lemma sint_sample_minus_offset:
  fixes off :: uint16_t
  assumes "\<bar>raw - uint off\<bar> < 32768"
  shows "sint (word_of_int raw - off) = raw - uint off"
proof -
  have "word_of_int raw - off = (word_of_int (raw - uint off) :: 16 word)"
    by simp
  moreover have "sint (word_of_int (raw - uint off) :: 16 word) = raw - uint off"
    using assms by (subst sint_sbintrunc') (simp add: signed_take_bit_int_eq_self)
  ultimately show ?thesis by simp
qed

text \<open>The two branches of \<open>getJoystickValue\<close>, and the open one selector by selector.\<close>

lemma getJoystickValue_gated:
  assumes "t_gate - timeLastAnalog g < ucast (timeBetweenReads g)"
  shows "getJoystickValue hw t_gate t_now sel g
           = ((if sel = SW_X then valueX g else valueY g), g)"
  using assms by (simp add: getJoystickValue_def)

lemma getJoystickValue_open_X:
  assumes "\<not> t_gate - timeLastAnalog g < ucast (timeBetweenReads g)"
  shows "getJoystickValue hw t_gate t_now SW_X g =
     (let d = word_of_int (analogRead hw (PIN_X hw)) - offsetX g;
          v = (if \<bar>sint d\<bar> < uint (deadband g) then 0 else d)
      in (v, g\<lparr>timeLastAnalog := t_now, valueX := v\<rparr>))"
  using assms by (simp add: getJoystickValue_def Let_def)

lemma getJoystickValue_open_Y:
  assumes "\<not> t_gate - timeLastAnalog g < ucast (timeBetweenReads g)"
  shows "getJoystickValue hw t_gate t_now SW_Y g =
     (let d = word_of_int (analogRead hw (PIN_Y hw)) - offsetY g;
          v = (if \<bar>sint d\<bar> < uint (deadband g) then 0 else d)
      in (v, g\<lparr>timeLastAnalog := t_now, valueY := v\<rparr>))"
  using assms by (simp add: getJoystickValue_def Let_def)

lemma getJoystickValue_open_other:
  assumes "\<not> t_gate - timeLastAnalog g < ucast (timeBetweenReads g)"
    and "sel \<noteq> SW_X" and "sel \<noteq> SW_Y"
  shows "getJoystickValue hw t_gate t_now sel g = (0, g\<lparr>timeLastAnalog := t_now\<rparr>)"
  using assms by (cases sel) (simp_all add: getJoystickValue_def)

lemma getJoystickValue_open_stamp:
  assumes "\<not> t_gate - timeLastAnalog g < ucast (timeBetweenReads g)"
  shows "timeLastAnalog (snd (getJoystickValue hw t_gate t_now sel g)) = t_now"
  using assms by (cases sel) (simp_all add: getJoystickValue_def Let_def)

lemma getJoystickValue_calls_gated:
  assumes "\<forall>(hw, t_gate, t_now) \<in> set cs.
             t_gate - timeLastAnalog g < ucast (timeBetweenReads g)"
  shows "getJoystickValue_calls cs sel g
          = (replicate (length cs) (if sel = SW_X then valueX g else valueY g), g)"
  using assms
proof (induction cs)
  case Nil
  then show ?case by simp
next
  case (Cons c cs)
  obtain hw t_gate t_now where c: "c = (hw, t_gate, t_now)"
    by (cases c) auto
  from Cons.prems c have "t_gate - timeLastAnalog g < ucast (timeBetweenReads g)"
    by simp
  then have "getJoystickValue hw t_gate t_now sel g
      = ((if sel = SW_X then valueX g else valueY g), g)"
    by (rule getJoystickValue_gated)
  moreover from Cons have "getJoystickValue_calls cs sel g
      = (replicate (length cs) (if sel = SW_X then valueX g else valueY g), g)"
    by simp
  ultimately show ?case
    by (simp add: c)
qed

text \<open>The two branches of \<open>getJoystickDirection\<close>, and the sign it computes.\<close>

lemma getJoystickDirection_gated:
  assumes "t_dir - timeLastAnalog g < ucast (timeBetweenReads g)"
  shows "getJoystickDirection hw t_dir t_gate t_now sel g = (0, g)"
  using assms by (simp add: getJoystickDirection_def)

lemma getJoystickDirection_open:
  assumes "\<not> t_dir - timeLastAnalog g < ucast (timeBetweenReads g)"
  shows "getJoystickDirection hw t_dir t_gate t_now sel g =
     (let v = fst (getJoystickValue hw t_gate t_now sel g)
      in (if v = 0 then 0 else if sint v < 0 then - 1 else 1),
      snd (getJoystickValue hw t_gate t_now sel g))"
  using assms by (simp add: getJoystickDirection_def Let_def split_beta)

lemma sint_direction:
  fixes v :: int16_t
  shows "sint ((if v = 0 then 0 else if sint v < 0 then - 1 else 1) :: int8_t) = sgn (sint v)"
  by (simp add: sgn_if signed_eq_0_iff)

text \<open>The test of the gate, read as the specification's elapsed time.\<close>

lemma gate_elapsed_spec:
  fixes t stamp :: uint32_t and iv :: uint16_t
  shows "(t - stamp < ucast iv) = (elapsed_spec t stamp < uint iv)"
proof -
  have "uint (t - stamp) = elapsed_spec t stamp"
    by (simp add: elapsed_spec_def uint_word_ariths)
  moreover have "uint (ucast iv :: uint32_t) = uint iv"
    by (simp add: uint_up_ucast is_up)
  ultimately show ?thesis
    by (simp add: word_less_def)
qed

lemma elapsed_spec_shift:
  "elapsed_spec (now + k) (stamp + k) = elapsed_spec now stamp"
proof -
  have "uint ((now + k) - (stamp + k)) = uint (now - stamp)"
    by simp
  then show ?thesis
    by (simp only: elapsed_spec_def uint_word_ariths(2) len_of_numeral_defs) simp
qed

lemma interval_zero_open:
  fixes t :: uint32_t
  assumes "timeBetweenReads g = 0"
  shows "\<not> t < ucast (timeBetweenReads g)"
  using assms by simp

text \<open>What each method does to the two configuration members.\<close>

lemma getSwitch_config:
  "deadband (snd (getSwitch hw t1 t2 g)) = deadband g"
  "timeBetweenReads (snd (getSwitch hw t1 t2 g)) = timeBetweenReads g"
  by (simp_all add: getSwitch_def)

lemma anyKey_config:
  "deadband (snd (anyKey hw t1 t2 g)) = deadband g"
  "timeBetweenReads (snd (anyKey hw t1 t2 g)) = timeBetweenReads g"
  by (simp_all add: anyKey_def split_beta getSwitch_config)

lemma getJoystickValue_config:
  "deadband (snd (getJoystickValue hw t1 t2 sel g)) = deadband g"
  "timeBetweenReads (snd (getJoystickValue hw t1 t2 sel g)) = timeBetweenReads g"
  by (cases sel; simp add: getJoystickValue_def Let_def)+

lemma getJoystickDirection_config:
  "deadband (snd (getJoystickDirection hw t1 t2 t3 sel g)) = deadband g"
  "timeBetweenReads (snd (getJoystickDirection hw t1 t2 t3 sel g)) = timeBetweenReads g"
  by (simp_all add: getJoystickDirection_def split_beta getJoystickValue_config)

lemma begin_config:
  "deadband (snd (begin' hw modes g)) = DEFAULT_DB"
  "timeBetweenReads (snd (begin' hw modes g)) = DEFAULT_DELAY"
  by (simp_all add: begin'_def Let_def)

lemma call_method_deadband:
  "deadband (snd (call_method c hw ts st))
     = (if c = Begin then DEFAULT_DB else deadband (snd st))"
proof -
  obtain t1 t2 t3 modes g where "ts = (t1, t2, t3)" and "st = (modes, g)"
    by (cases ts, cases st) auto
  then show ?thesis
    by (cases c) (simp_all add: begin_config setReadDelay_def getSwitch_config anyKey_config
        getJoystickValue_config getJoystickDirection_config)
qed

lemma call_method_read_interval:
  assumes "is_read c"
  shows "timeBetweenReads (snd (call_method c hw ts st)) = timeBetweenReads (snd st)"
proof -
  obtain t1 t2 t3 modes g where "ts = (t1, t2, t3)" and "st = (modes, g)"
    by (cases ts, cases st) auto
  with assms show ?thesis
    by (cases c) (simp_all add: getSwitch_config anyKey_config
        getJoystickValue_config getJoystickDirection_config)
qed

lemma run_calls_deadband:
  assumes "deadband (snd st) = DEFAULT_DB"
  shows "deadband (snd (run_calls cs st)) = DEFAULT_DB"
  using assms
proof (induction cs arbitrary: st)
  case Nil
  then show ?case by simp
next
  case (Cons x cs)
  obtain c hw ts where x: "x = (c, hw, ts)"
    by (cases x) auto
  have "deadband (snd (call_method c hw ts st)) = DEFAULT_DB"
    using Cons.prems by (simp add: call_method_deadband)
  then have "deadband (snd (run_calls cs (call_method c hw ts st))) = DEFAULT_DB"
    by (rule Cons.IH)
  then show ?case by (simp add: x)
qed

lemma run_calls_read_interval:
  assumes "\<forall>(c, b, ts) \<in> set cs. is_read c"
  shows "timeBetweenReads (snd (run_calls cs st)) = timeBetweenReads (snd st)"
  using assms
proof (induction cs arbitrary: st)
  case Nil
  then show ?case by simp
next
  case (Cons x cs)
  obtain c hw ts where x: "x = (c, hw, ts)"
    by (cases x) auto
  from Cons.prems x have r: "is_read c" and rest: "\<forall>(c, b, ts) \<in> set cs. is_read c"
    by auto
  have "timeBetweenReads (snd (run_calls cs (call_method c hw ts st)))
      = timeBetweenReads (snd (call_method c hw ts st))"
    using rest by (rule Cons.IH)
  also have "\<dots> = timeBetweenReads (snd st)"
    using r by (rule call_method_read_interval)
  finally show ?case by (simp add: x)
qed

subsection \<open>Axis values\<close>

text \<open>
  C1. The claim is that \<open>getJoystickValue\<close> returns 0 for every selector other than
  \<open>SW_X\<close> and \<open>SW_Y\<close>, in every state. Once the interval has elapsed it does
  (\<open>getJoystickValue_open_other\<close>), but inside the interval the test
  \<open>sw == SW_X ? _valueX : _valueY\<close> sends every other selector to the cached Y
  value: after \<open>begin\<close> and one Y sample of 12 at time 100, a call at time 150 with
  \<open>SW_K\<close> or \<open>SW_NONE\<close> returns 12.
\<close>

theorem getJoystickValue_other_selector_gated:
  "150 - timeLastAnalog sampled < ucast (timeBetweenReads sampled)
   \<and> getJoystickValue (bench [] 600 600) 150 150 SW_K sampled = (12, sampled)
   \<and> getJoystickValue (bench [] 600 600) 150 150 SW_NONE sampled = (12, sampled)"
  by (simp add: sampled_eq getJoystickValue_def)

text \<open>
  C2. Once the interval has elapsed since the last analog sample, \<open>getJoystickValue\<close>
  on the X (resp. Y) axis returns the raw sample minus that axis's zero-offset, or 0
  when the absolute value of that difference is below the deadband; the value returned
  becomes the axis's cached value and the timestamp of the last analog sample becomes
  the clock value read for it. The subtraction is the 16-bit one of the code; it is the
  integer difference of the specification whenever that fits the signed 16-bit member,
  as it does for every ADC of up to 15 bits.
\<close>

theorem getJoystickValue_sample:
  assumes "\<not> t_gate - timeLastAnalog g < ucast (timeBetweenReads g)"
  shows "getJoystickValue hw t_gate t_now SW_X g =
           (let d = word_of_int (analogRead hw (PIN_X hw)) - offsetX g;
                v = (if \<bar>sint d\<bar> < uint (deadband g) then 0 else d)
            in (v, g\<lparr>timeLastAnalog := t_now, valueX := v\<rparr>))
       \<and> getJoystickValue hw t_gate t_now SW_Y g =
           (let d = word_of_int (analogRead hw (PIN_Y hw)) - offsetY g;
                v = (if \<bar>sint d\<bar> < uint (deadband g) then 0 else d)
            in (v, g\<lparr>timeLastAnalog := t_now, valueY := v\<rparr>))
       \<and> (\<bar>analogRead hw (PIN_X hw) - uint (offsetX g)\<bar> < 32768 \<longrightarrow>
            sint (fst (getJoystickValue hw t_gate t_now SW_X g))
              = zero_adjusted (analogRead hw (PIN_X hw)) (uint (offsetX g)) (uint (deadband g)))
       \<and> (\<bar>analogRead hw (PIN_Y hw) - uint (offsetY g)\<bar> < 32768 \<longrightarrow>
            sint (fst (getJoystickValue hw t_gate t_now SW_Y g))
              = zero_adjusted (analogRead hw (PIN_Y hw)) (uint (offsetY g)) (uint (deadband g)))"
proof (intro conjI impI)
  show "getJoystickValue hw t_gate t_now SW_X g =
      (let d = word_of_int (analogRead hw (PIN_X hw)) - offsetX g;
           v = (if \<bar>sint d\<bar> < uint (deadband g) then 0 else d)
       in (v, g\<lparr>timeLastAnalog := t_now, valueX := v\<rparr>))"
    by (rule getJoystickValue_open_X [OF assms])
  show "getJoystickValue hw t_gate t_now SW_Y g =
      (let d = word_of_int (analogRead hw (PIN_Y hw)) - offsetY g;
           v = (if \<bar>sint d\<bar> < uint (deadband g) then 0 else d)
       in (v, g\<lparr>timeLastAnalog := t_now, valueY := v\<rparr>))"
    by (rule getJoystickValue_open_Y [OF assms])
next
  assume r: "\<bar>analogRead hw (PIN_X hw) - uint (offsetX g)\<bar> < 32768"
  show "sint (fst (getJoystickValue hw t_gate t_now SW_X g))
      = zero_adjusted (analogRead hw (PIN_X hw)) (uint (offsetX g)) (uint (deadband g))"
    using sint_sample_minus_offset [OF r]
    by (simp add: getJoystickValue_open_X [OF assms] Let_def zero_adjusted_def)
next
  assume r: "\<bar>analogRead hw (PIN_Y hw) - uint (offsetY g)\<bar> < 32768"
  show "sint (fst (getJoystickValue hw t_gate t_now SW_Y g))
      = zero_adjusted (analogRead hw (PIN_Y hw)) (uint (offsetY g)) (uint (deadband g))"
    using sint_sample_minus_offset [OF r]
    by (simp add: getJoystickValue_open_Y [OF assms] Let_def zero_adjusted_def)
qed

text \<open>
  With offsets 512 and 508 and deadband 5: a reading of offset + 3 gives 0, offset + 10
  gives 10, offset - 12 gives -12.
\<close>

theorem getJoystickValue_sample_witness:
  "\<not> 100 - timeLastAnalog started < ucast (timeBetweenReads started)
   \<and> getJoystickValue (bench [] 515 518) 100 101 SW_X started
       = (0, started\<lparr>timeLastAnalog := 101, valueX := 0\<rparr>)
   \<and> getJoystickValue (bench [] 515 518) 100 101 SW_Y started
       = (10, started\<lparr>timeLastAnalog := 101, valueY := 10\<rparr>)
   \<and> sint (fst (getJoystickValue (bench [] 500 518) 100 101 SW_X started)) = - 12"
proof -
  have o: "\<not> 100 - timeLastAnalog started < ucast (timeBetweenReads started)"
    by (simp add: started_eq)
  note a = getJoystickValue_sample [OF o, of "bench [] 515 518" 101]
  note b = getJoystickValue_sample [OF o, of "bench [] 500 518" 101]
  have "getJoystickValue (bench [] 515 518) 100 101 SW_X started
      = (0, started\<lparr>timeLastAnalog := 101, valueX := 0\<rparr>)"
    by (simp only: a [THEN conjunct1]) (simp add: started_eq bench_def PIN_X_def)
  moreover have "getJoystickValue (bench [] 515 518) 100 101 SW_Y started
      = (10, started\<lparr>timeLastAnalog := 101, valueY := 10\<rparr>)"
    by (simp only: a [THEN conjunct2, THEN conjunct1])
      (simp add: started_eq bench_def PIN_Y_def)
  moreover have "sint (fst (getJoystickValue (bench [] 500 518) 100 101 SW_X started)) = - 12"
    using b [THEN conjunct2, THEN conjunct2, THEN conjunct1]
    by (simp add: started_eq bench_def PIN_X_def zero_adjusted_def)
  ultimately show ?thesis
    using o by (intro conjI)
qed

text \<open>
  C6. While less than the interval has elapsed since the last analog sample,
  \<open>getJoystickValue\<close> on the X (resp. Y) axis returns that axis's cached value and
  the object unchanged; the board's readings do not enter the result. So every call of
  a sequence of calls that all fall inside the interval returns the same cached value,
  and the object after the sequence is the one before it.
\<close>

theorem getJoystickValue_cached:
  "(t_gate - timeLastAnalog g < ucast (timeBetweenReads g) \<longrightarrow>
      getJoystickValue hw t_gate t_now SW_X g = (valueX g, g)
    \<and> getJoystickValue hw t_gate t_now SW_Y g = (valueY g, g))
   \<and> ((\<forall>(hw, t_gate, t_now) \<in> set cs.
          t_gate - timeLastAnalog g < ucast (timeBetweenReads g)) \<longrightarrow>
      getJoystickValue_calls cs SW_X g = (replicate (length cs) (valueX g), g)
    \<and> getJoystickValue_calls cs SW_Y g = (replicate (length cs) (valueY g), g))"
  using getJoystickValue_gated [of t_gate g hw t_now SW_X]
        getJoystickValue_gated [of t_gate g hw t_now SW_Y]
        getJoystickValue_calls_gated [of cs g SW_X]
        getJoystickValue_calls_gated [of cs g SW_Y]
  by simp

text \<open>
  After the Y sample of 12 at time 100, calls at times 150 and 199 return 12 although
  the axis now reads 600 and then 300.
\<close>

theorem getJoystickValue_cached_witness:
  "150 - timeLastAnalog sampled < ucast (timeBetweenReads sampled)
   \<and> 199 - timeLastAnalog sampled < ucast (timeBetweenReads sampled)
   \<and> getJoystickValue (bench [] 600 600) 150 150 SW_Y sampled = (12, sampled)
   \<and> getJoystickValue_calls [(bench [] 600 600, 150, 150), (bench [] 300 300, 199, 199)]
         SW_Y sampled = (replicate 2 12, sampled)"
proof -
  have h1: "150 - timeLastAnalog sampled < ucast (timeBetweenReads sampled)"
    and h1': "199 - timeLastAnalog sampled < ucast (timeBetweenReads sampled)"
    by (simp_all add: sampled_eq)
  have h2: "\<forall>(hw, t_gate, t_now)
              \<in> set [(bench [] 600 600, 150, 150), (bench [] 300 300, 199, 199)].
            t_gate - timeLastAnalog sampled < ucast (timeBetweenReads sampled)"
    by (simp add: sampled_eq)
  have v: "valueY sampled = 12"
    and n: "length [(bench [] 600 600, 150, 150),
                    (bench [] 300 300, 199 :: uint32_t, 199 :: uint32_t)] = 2"
    by (simp_all add: sampled_eq)
  from getJoystickValue_cached [of 150 sampled "bench [] 600 600" 150
          "[(bench [] 600 600, 150, 150), (bench [] 300 300, 199, 199)]"] h1 h2
  have "getJoystickValue (bench [] 600 600) 150 150 SW_Y sampled = (valueY sampled, sampled)"
    and "getJoystickValue_calls [(bench [] 600 600, 150, 150), (bench [] 300 300, 199, 199)]
           SW_Y sampled
         = (replicate (length [(bench [] 600 600, 150, 150),
                               (bench [] 300 300, 199 :: uint32_t, 199 :: uint32_t)])
              (valueY sampled), sampled)"
    by blast+
  with h1 h1' show ?thesis
    by (simp only: v n)
qed

text \<open>
  C10. With a selector other than \<open>SW_X\<close> and \<open>SW_Y\<close>, once the interval has
  elapsed, \<open>getJoystickValue\<close> returns 0 and still writes the timestamp of the last
  analog sample. A call for the X or the Y axis that follows inside the interval counted
  from that timestamp therefore returns the value cached before, whatever the axis
  reads now, and takes no sample.
\<close>

theorem getJoystickValue_other_selector_stamps:
  assumes "sel \<noteq> SW_X" and "sel \<noteq> SW_Y"
    and "\<not> t_gate - timeLastAnalog g < ucast (timeBetweenReads g)"
  shows "getJoystickValue hw t_gate t_now sel g = (0, g\<lparr>timeLastAnalog := t_now\<rparr>)
    \<and> (t_gate' - t_now < ucast (timeBetweenReads g) \<longrightarrow>
          getJoystickValue hw' t_gate' t_now' SW_X (snd (getJoystickValue hw t_gate t_now sel g))
            = (valueX g, g\<lparr>timeLastAnalog := t_now\<rparr>)
        \<and> getJoystickValue hw' t_gate' t_now' SW_Y (snd (getJoystickValue hw t_gate t_now sel g))
            = (valueY g, g\<lparr>timeLastAnalog := t_now\<rparr>))"
proof -
  have first: "getJoystickValue hw t_gate t_now sel g = (0, g\<lparr>timeLastAnalog := t_now\<rparr>)"
    using assms by (simp add: getJoystickValue_open_other)
  have "getJoystickValue hw' t_gate' t_now' sel' (g\<lparr>timeLastAnalog := t_now\<rparr>)
      = ((if sel' = SW_X then valueX g else valueY g), g\<lparr>timeLastAnalog := t_now\<rparr>)"
    if "t_gate' - t_now < ucast (timeBetweenReads g)" for sel'
    using that getJoystickValue_gated [of t_gate' "g\<lparr>timeLastAnalog := t_now\<rparr>" hw' t_now' sel']
    by simp
  with first show ?thesis by simp
qed

text \<open>
  The last sample was at time 100. A call with \<open>SW_K\<close> at time 300 moves the timestamp
  to 300, and the call for the Y axis at time 301 returns the old 12 while the axis
  reads 600.
\<close>

theorem getJoystickValue_other_selector_stamps_witness:
  "SW_K \<noteq> SW_X \<and> SW_K \<noteq> SW_Y
   \<and> \<not> 300 - timeLastAnalog sampled < ucast (timeBetweenReads sampled)
   \<and> getJoystickValue (bench [] 600 600) 300 300 SW_K sampled
       = (0, sampled\<lparr>timeLastAnalog := 300\<rparr>)
   \<and> 301 - 300 < (ucast (timeBetweenReads sampled) :: uint32_t)
   \<and> getJoystickValue (bench [] 600 600) 301 301 SW_Y
         (snd (getJoystickValue (bench [] 600 600) 300 300 SW_K sampled))
       = (12, sampled\<lparr>timeLastAnalog := 300\<rparr>)"
proof -
  have pre: "SW_K \<noteq> SW_X" "SW_K \<noteq> SW_Y"
      "\<not> 300 - timeLastAnalog sampled < ucast (timeBetweenReads sampled)"
    by (simp_all add: sampled_eq)
  have w: "301 - 300 < (ucast (timeBetweenReads sampled) :: uint32_t)"
    by (simp add: sampled_eq)
  have v: "valueY sampled = 12"
    by (simp add: sampled_eq)
  note t = getJoystickValue_other_selector_stamps
             [OF pre, of "bench [] 600 600" 300 301 "bench [] 600 600" 301]
  from t have a: "getJoystickValue (bench [] 600 600) 300 300 SW_K sampled
      = (0, sampled\<lparr>timeLastAnalog := 300\<rparr>)"
    by (rule conjunct1)
  from t w have "getJoystickValue (bench [] 600 600) 301 301 SW_Y
        (snd (getJoystickValue (bench [] 600 600) 300 300 SW_K sampled))
      = (valueY sampled, sampled\<lparr>timeLastAnalog := 300\<rparr>)"
    by blast
  then have b: "getJoystickValue (bench [] 600 600) 301 301 SW_Y
        (snd (getJoystickValue (bench [] 600 600) 300 300 SW_K sampled))
      = (12, sampled\<lparr>timeLastAnalog := 300\<rparr>)"
    by (simp only: v)
  from pre w a b show ?thesis
    by (intro conjI)
qed

subsection \<open>Polling the switches\<close>

text \<open>
  C3. While less than the interval has elapsed since the last digital sample,
  \<open>getSwitch\<close> returns \<open>SW_NONE\<close> whatever the pins show and leaves the object,
  and so the timestamp, as it was. In every other state the object it leaves has the
  timestamp of the last digital sample set to the clock value read for it, whatever
  the scan then finds, and no other member changed.
\<close>

theorem getSwitch_gate:
  "(t_gate - timeLastDigital g < ucast (timeBetweenReads g)
      \<longrightarrow> getSwitch hw t_gate t_now g = (SW_NONE, g))
   \<and> (\<not> t_gate - timeLastDigital g < ucast (timeBetweenReads g)
      \<longrightarrow> snd (getSwitch hw t_gate t_now g) = g\<lparr>timeLastDigital := t_now\<rparr>)"
  by (simp add: getSwitch_def)

text \<open>With B held down: nothing at time 50, and at time 100 the timestamp moves.\<close>

theorem getSwitch_gate_witness:
  "50 - timeLastDigital started < ucast (timeBetweenReads started)
   \<and> getSwitch (bench [PIN_B] 512 508) 50 50 started = (SW_NONE, started)
   \<and> \<not> 100 - timeLastDigital started < ucast (timeBetweenReads started)
   \<and> snd (getSwitch (bench [PIN_B] 512 508) 100 101 started)
       = started\<lparr>timeLastDigital := 101\<rparr>"
  using getSwitch_gate [of 50 started "bench [PIN_B] 512 508" 50]
        getSwitch_gate [of 100 started "bench [PIN_B] 512 508" 101]
  by (simp add: started_eq)

text \<open>
  C4. Once the interval has elapsed, \<open>getSwitch\<close> returns the switch of the first
  entry of the table, in its order A, B, C, D, E, F, K, whose pin reads low: a low pin
  hides every later one, and with no low pin the result is \<open>SW_NONE\<close>.
\<close>

theorem getSwitch_first_low:
  assumes "\<not> t_gate - timeLastDigital g < ucast (timeBetweenReads g)"
  shows "fst (getSwitch hw t_gate t_now g) =
     (if digitalRead hw PIN_A = LOW then SW_A
      else if digitalRead hw PIN_B = LOW then SW_B
      else if digitalRead hw PIN_C = LOW then SW_C
      else if digitalRead hw PIN_D = LOW then SW_D
      else if digitalRead hw PIN_E = LOW then SW_E
      else if digitalRead hw PIN_F = LOW then SW_F
      else if digitalRead hw PIN_K = LOW then SW_K
      else SW_NONE)"
proof -
  have "fst (getSwitch hw t_gate t_now g) = getSwitch_scan hw 0"
    using assms by (simp add: getSwitch_def)
  then show ?thesis
    by (simp only: getSwitch_scan_0)
qed

text \<open>With B and D both pressed the answer is B; with nothing pressed it is \<open>SW_NONE\<close>.\<close>

theorem getSwitch_first_low_witness:
  "\<not> 100 - timeLastDigital started < ucast (timeBetweenReads started)
   \<and> fst (getSwitch (bench [PIN_D, PIN_B] 512 508) 100 101 started) = SW_B
   \<and> fst (getSwitch (bench [] 512 508) 100 101 started) = SW_NONE"
  using getSwitch_first_low [of 100 started "bench [PIN_D, PIN_B] 512 508" 101]
        getSwitch_first_low [of 100 started "bench [] 512 508" 101]
  by (simp add: started_eq bench_def PIN_A_def PIN_B_def PIN_C_def PIN_D_def PIN_E_def
      PIN_F_def PIN_K_def)

subsection \<open>Axis direction\<close>

text \<open>
  C5. \<open>getJoystickDirection\<close> returns -1, 0 or +1. While less than the interval has
  elapsed since the last analog sample it returns 0 and leaves the object alone, even
  with a cached value that is not 0. Otherwise it returns the sign of the value that
  \<open>getJoystickValue\<close> returns for the selector, and leaves the object that call
  leaves.
\<close>

theorem getJoystickDirection_sign:
  "sint (fst (getJoystickDirection hw t_dir t_gate t_now sel g)) \<in> {- 1, 0, 1}
   \<and> (t_dir - timeLastAnalog g < ucast (timeBetweenReads g) \<longrightarrow>
        getJoystickDirection hw t_dir t_gate t_now sel g = (0, g))
   \<and> (\<not> t_dir - timeLastAnalog g < ucast (timeBetweenReads g) \<longrightarrow>
        sint (fst (getJoystickDirection hw t_dir t_gate t_now sel g))
          = sgn (sint (fst (getJoystickValue hw t_gate t_now sel g)))
        \<and> snd (getJoystickDirection hw t_dir t_gate t_now sel g)
          = snd (getJoystickValue hw t_gate t_now sel g))"
proof (cases "t_dir - timeLastAnalog g < ucast (timeBetweenReads g)")
  case True
  then show ?thesis by (simp add: getJoystickDirection_gated)
next
  case False
  have "sint (fst (getJoystickDirection hw t_dir t_gate t_now sel g))
      = sgn (sint (fst (getJoystickValue hw t_gate t_now sel g)))"
    by (simp only: getJoystickDirection_open [OF False] Let_def fst_conv sint_direction)
  moreover have "snd (getJoystickDirection hw t_dir t_gate t_now sel g)
      = snd (getJoystickValue hw t_gate t_now sel g)"
    by (simp only: getJoystickDirection_open [OF False] snd_conv)
  ultimately show ?thesis
    using False by (simp add: sgn_if)
qed

text \<open>
  With 12 cached for Y, the direction asked at time 150 is 0. At time 300 the Y axis
  reads 400, below its offset 508, and the X axis 600, above its offset 512, or 514,
  inside the deadband.
\<close>

theorem getJoystickDirection_sign_witness:
  "150 - timeLastAnalog sampled < ucast (timeBetweenReads sampled)
   \<and> valueY sampled \<noteq> 0
   \<and> getJoystickDirection (bench [] 600 400) 150 150 150 SW_Y sampled = (0, sampled)
   \<and> \<not> 300 - timeLastAnalog sampled < ucast (timeBetweenReads sampled)
   \<and> sint (fst (getJoystickDirection (bench [] 600 400) 300 300 300 SW_Y sampled)) = - 1
   \<and> sint (fst (getJoystickDirection (bench [] 600 400) 300 300 300 SW_X sampled)) = 1
   \<and> sint (fst (getJoystickDirection (bench [] 514 400) 300 300 300 SW_X sampled)) = 0"
  using getJoystickDirection_sign [of "bench [] 600 400" 150 150 150 SW_Y sampled]
        getJoystickDirection_sign [of "bench [] 600 400" 300 300 300 SW_Y sampled]
        getJoystickDirection_sign [of "bench [] 600 400" 300 300 300 SW_X sampled]
        getJoystickDirection_sign [of "bench [] 514 400" 300 300 300 SW_X sampled]
  by (simp add: sampled_eq getJoystickValue_def bench_def PIN_X_def PIN_Y_def)

subsection \<open>The read interval and the deadband\<close>

text \<open>
  C7. \<open>setReadDelay\<close> stores any 16-bit value, 0 included. With the interval at 0 no
  test of the gate succeeds: \<open>getSwitch\<close> stamps and scans, \<open>getJoystickValue\<close>
  samples the axis, and \<open>getJoystickDirection\<close> takes the sign of what
  \<open>getJoystickValue\<close> then samples; the interval is still 0 afterwards. In
  particular a second call at the very clock value the first one stamped reads the
  board again.
\<close>

theorem read_delay_zero_samples_fresh:
  "timeBetweenReads (setReadDelay delay g) = delay
   \<and> (timeBetweenReads g = 0 \<longrightarrow>
        getSwitch hw t_gate t_now g = (getSwitch_scan hw 0, g\<lparr>timeLastDigital := t_now\<rparr>)
      \<and> getSwitch hw' t_now t_now (snd (getSwitch hw t_gate t_now g))
          = (getSwitch_scan hw' 0, g\<lparr>timeLastDigital := t_now\<rparr>)
      \<and> getJoystickValue hw t_gate t_now SW_X g =
          (let d = word_of_int (analogRead hw (PIN_X hw)) - offsetX g;
               v = (if \<bar>sint d\<bar> < uint (deadband g) then 0 else d)
           in (v, g\<lparr>timeLastAnalog := t_now, valueX := v\<rparr>))
      \<and> getJoystickValue hw' t_now t_now SW_X (snd (getJoystickValue hw t_gate t_now SW_X g)) =
          (let d = word_of_int (analogRead hw' (PIN_X hw')) - offsetX g;
               v = (if \<bar>sint d\<bar> < uint (deadband g) then 0 else d)
           in (v, g\<lparr>timeLastAnalog := t_now, valueX := v\<rparr>))
      \<and> getJoystickValue hw t_gate t_now SW_Y g =
          (let d = word_of_int (analogRead hw (PIN_Y hw)) - offsetY g;
               v = (if \<bar>sint d\<bar> < uint (deadband g) then 0 else d)
           in (v, g\<lparr>timeLastAnalog := t_now, valueY := v\<rparr>))
      \<and> getJoystickValue hw' t_now t_now SW_Y (snd (getJoystickValue hw t_gate t_now SW_Y g)) =
          (let d = word_of_int (analogRead hw' (PIN_Y hw')) - offsetY g;
               v = (if \<bar>sint d\<bar> < uint (deadband g) then 0 else d)
           in (v, g\<lparr>timeLastAnalog := t_now, valueY := v\<rparr>))
      \<and> getJoystickDirection hw t_dir t_gate t_now sel g =
          (let v = fst (getJoystickValue hw t_gate t_now sel g)
           in (if v = 0 then 0 else if sint v < 0 then - 1 else 1),
           snd (getJoystickValue hw t_gate t_now sel g))
      \<and> timeBetweenReads (snd (getJoystickDirection hw t_dir t_gate t_now sel g)) = 0)"
proof (intro conjI impI)
  show "timeBetweenReads (setReadDelay delay g) = delay"
    by (simp add: setReadDelay_def)
next
  assume z: "timeBetweenReads g = 0"
  note o = interval_zero_open [OF z]
  show sw1: "getSwitch hw t_gate t_now g = (getSwitch_scan hw 0, g\<lparr>timeLastDigital := t_now\<rparr>)"
    using z by (simp add: getSwitch_def)
  show "getSwitch hw' t_now t_now (snd (getSwitch hw t_gate t_now g))
      = (getSwitch_scan hw' 0, g\<lparr>timeLastDigital := t_now\<rparr>)"
    using z by (simp add: sw1) (simp add: getSwitch_def)
  show x1: "getJoystickValue hw t_gate t_now SW_X g =
      (let d = word_of_int (analogRead hw (PIN_X hw)) - offsetX g;
           v = (if \<bar>sint d\<bar> < uint (deadband g) then 0 else d)
       in (v, g\<lparr>timeLastAnalog := t_now, valueX := v\<rparr>))"
    by (rule getJoystickValue_open_X [OF o])
  show "getJoystickValue hw' t_now t_now SW_X (snd (getJoystickValue hw t_gate t_now SW_X g)) =
      (let d = word_of_int (analogRead hw' (PIN_X hw')) - offsetX g;
           v = (if \<bar>sint d\<bar> < uint (deadband g) then 0 else d)
       in (v, g\<lparr>timeLastAnalog := t_now, valueX := v\<rparr>))"
    using z by (simp add: x1 Let_def) (simp add: getJoystickValue_def Let_def)
  show y1: "getJoystickValue hw t_gate t_now SW_Y g =
      (let d = word_of_int (analogRead hw (PIN_Y hw)) - offsetY g;
           v = (if \<bar>sint d\<bar> < uint (deadband g) then 0 else d)
       in (v, g\<lparr>timeLastAnalog := t_now, valueY := v\<rparr>))"
    by (rule getJoystickValue_open_Y [OF o])
  show "getJoystickValue hw' t_now t_now SW_Y (snd (getJoystickValue hw t_gate t_now SW_Y g)) =
      (let d = word_of_int (analogRead hw' (PIN_Y hw')) - offsetY g;
           v = (if \<bar>sint d\<bar> < uint (deadband g) then 0 else d)
       in (v, g\<lparr>timeLastAnalog := t_now, valueY := v\<rparr>))"
    using z by (simp add: y1 Let_def) (simp add: getJoystickValue_def Let_def)
  show d1: "getJoystickDirection hw t_dir t_gate t_now sel g =
      (let v = fst (getJoystickValue hw t_gate t_now sel g)
       in (if v = 0 then 0 else if sint v < 0 then - 1 else 1),
       snd (getJoystickValue hw t_gate t_now sel g))"
    by (rule getJoystickDirection_open [OF o])
  have "timeBetweenReads (snd (getJoystickValue hw t_gate t_now sel g)) = 0"
    using z by (simp add: getJoystickValue_config)
  then show "timeBetweenReads (snd (getJoystickDirection hw t_dir t_gate t_now sel g)) = 0"
    by (simp only: d1 snd_conv)
qed

text \<open>
  After \<open>setReadDelay(0)\<close>, two calls at the same millisecond: the X axis reads 522
  and then 532, and the calls return 10 and then 20; A is down and then B, and the
  polls return A and then B.
\<close>

theorem read_delay_zero_samples_fresh_witness:
  "timeBetweenReads (setReadDelay 0 started) = 0
   \<and> fst (getJoystickValue (bench [] 522 508) 7 7 SW_X (setReadDelay 0 started)) = 10
   \<and> fst (getJoystickValue (bench [] 532 508) 7 7 SW_X
            (snd (getJoystickValue (bench [] 522 508) 7 7 SW_X (setReadDelay 0 started)))) = 20
   \<and> fst (getSwitch (bench [PIN_A] 512 508) 7 7 (setReadDelay 0 started)) = SW_A
   \<and> fst (getSwitch (bench [PIN_B] 512 508) 7 7
            (snd (getSwitch (bench [PIN_A] 512 508) 7 7 (setReadDelay 0 started)))) = SW_B"
proof -
  have z: "timeBetweenReads (setReadDelay 0 started) = 0"
    by (simp add: setReadDelay_def)
  have g: "setReadDelay 0 started
      = \<lparr> timeLastDigital = 0, timeLastAnalog = 0, timeBetweenReads = 0,
          deadband = 5, offsetX = 512, offsetY = 508, valueX = 0, valueY = 0 \<rparr>"
    by (simp add: setReadDelay_def started_eq)
  note axis = read_delay_zero_samples_fresh
      [where g = "setReadDelay 0 started" and hw = "bench [] 522 508"
         and hw' = "bench [] 532 508" and t_gate = 7 and t_now = 7
         and delay = 0 and t_dir = 7 and sel = SW_X, THEN conjunct2, THEN mp, OF z]
  note keys = read_delay_zero_samples_fresh
      [where g = "setReadDelay 0 started" and hw = "bench [PIN_A] 512 508"
         and hw' = "bench [PIN_B] 512 508" and t_gate = 7 and t_now = 7
         and delay = 0 and t_dir = 7 and sel = SW_X, THEN conjunct2, THEN mp, OF z]
  note x1 = axis [THEN conjunct2, THEN conjunct2, THEN conjunct1]
  note x2 = axis [THEN conjunct2, THEN conjunct2, THEN conjunct2, THEN conjunct1]
  note k1 = keys [THEN conjunct1]
  note k2 = keys [THEN conjunct2, THEN conjunct1]
  have "fst (getJoystickValue (bench [] 522 508) 7 7 SW_X (setReadDelay 0 started)) = 10"
    by (simp only: x1) (simp add: g bench_def PIN_X_def)
  moreover have "fst (getJoystickValue (bench [] 532 508) 7 7 SW_X
      (snd (getJoystickValue (bench [] 522 508) 7 7 SW_X (setReadDelay 0 started)))) = 20"
    by (simp only: x2) (simp add: g bench_def PIN_X_def)
  moreover have "fst (getSwitch (bench [PIN_A] 512 508) 7 7 (setReadDelay 0 started)) = SW_A"
    by (simp only: k1 getSwitch_scan_bench fst_conv)
  moreover have "fst (getSwitch (bench [PIN_B] 512 508) 7 7
      (snd (getSwitch (bench [PIN_A] 512 508) 7 7 (setReadDelay 0 started)))) = SW_B"
    by (simp only: k2 getSwitch_scan_bench fst_conv)
  ultimately show ?thesis
    using z by (intro conjI)
qed

text \<open>
  C8. The claim is that the caller can change both the deadband and the read interval
  after \<open>begin\<close>. The class has a setter for the interval only. \<open>begin\<close> stores
  \<open>DEFAULT_DB\<close> in the deadband and no other method writes it, so after \<open>begin\<close>
  no sequence of calls of the public methods, \<open>begin\<close> itself included, leaves a
  deadband other than \<open>DEFAULT_DB\<close>.
\<close>

theorem deadband_has_no_setter:
  "\<not> (\<exists>cs hw modes g. deadband (snd (run_calls cs (begin' hw modes g))) \<noteq> DEFAULT_DB)"
  by (simp add: run_calls_deadband begin_config)

text \<open>
  C8, as the code has it. \<open>setReadDelay\<close> changes the read interval and nothing
  else, at any time; the deadband has no setter and is \<open>DEFAULT_DB\<close> after
  \<open>begin\<close> and after every sequence of calls that follows. Take any object reached
  by \<open>begin\<close>, any calls, \<open>setReadDelay(d)\<close> and then any reading calls: its
  interval is \<open>d\<close> and its deadband \<open>DEFAULT_DB\<close>, and every read uses exactly
  these. \<open>getSwitch\<close> and \<open>anyKey\<close> hold back while the elapsed digital time is
  below \<open>d\<close> and stamp and scan otherwise; \<open>getJoystickValue\<close> and
  \<open>getJoystickDirection\<close> hold back while the elapsed analog time is below \<open>d\<close>,
  and otherwise an axis is sampled, zeroed below \<open>DEFAULT_DB\<close>, cached and stamped.
  For a selector that is not an axis the theorem says what the object becomes, and that
  the result is 0 once the interval has elapsed.
\<close>

theorem config_after_begin:
  assumes reads: "\<forall>(c, b, ts) \<in> set reads. is_read c"
    and G: "G = snd (run_calls reads
                 (modes', setReadDelay d (snd (run_calls cs (begin' hw_init modes g)))))"
  shows "setReadDelay d g' = g'\<lparr>timeBetweenReads := d\<rparr>
   \<and> deadband (snd (run_calls cs (begin' hw_init modes g))) = DEFAULT_DB
   \<and> timeBetweenReads (snd (run_calls reads (modes', setReadDelay d g'))) = d
   \<and> timeBetweenReads G = d
   \<and> deadband G = DEFAULT_DB
   \<and> getSwitch hw t_gate t_now G =
        (if t_gate - timeLastDigital G < ucast d then (SW_NONE, G)
         else (getSwitch_scan hw 0, G\<lparr>timeLastDigital := t_now\<rparr>))
   \<and> anyKey hw t_gate t_now G =
        (if t_gate - timeLastDigital G < ucast d then (False, G)
         else (getSwitch_scan hw 0 \<noteq> SW_NONE, G\<lparr>timeLastDigital := t_now\<rparr>))
   \<and> getJoystickValue hw t_gate t_now SW_X G =
        (if t_gate - timeLastAnalog G < ucast d then (valueX G, G)
         else (let a = word_of_int (analogRead hw (PIN_X hw)) - offsetX G;
                   v = (if \<bar>sint a\<bar> < uint DEFAULT_DB then 0 else a)
               in (v, G\<lparr>timeLastAnalog := t_now, valueX := v\<rparr>)))
   \<and> getJoystickValue hw t_gate t_now SW_Y G =
        (if t_gate - timeLastAnalog G < ucast d then (valueY G, G)
         else (let a = word_of_int (analogRead hw (PIN_Y hw)) - offsetY G;
                   v = (if \<bar>sint a\<bar> < uint DEFAULT_DB then 0 else a)
               in (v, G\<lparr>timeLastAnalog := t_now, valueY := v\<rparr>)))
   \<and> (sel \<noteq> SW_X \<and> sel \<noteq> SW_Y \<longrightarrow>
        (t_gate - timeLastAnalog G < ucast d \<longrightarrow>
           snd (getJoystickValue hw t_gate t_now sel G) = G)
      \<and> (\<not> t_gate - timeLastAnalog G < ucast d \<longrightarrow>
           getJoystickValue hw t_gate t_now sel G = (0, G\<lparr>timeLastAnalog := t_now\<rparr>)))
   \<and> getJoystickDirection hw t_dir t_gate t_now sel G =
        (if t_dir - timeLastAnalog G < ucast d then (0, G)
         else (let v = fst (getJoystickValue hw t_gate t_now sel G)
               in (if v = 0 then 0 else if sint v < 0 then - 1 else 1),
               snd (getJoystickValue hw t_gate t_now sel G)))"
proof -
  have after: "deadband (snd (run_calls cs (begin' hw_init modes g))) = DEFAULT_DB"
    by (simp add: run_calls_deadband begin_config)
  have kept: "timeBetweenReads (snd (run_calls reads (modes', setReadDelay d g'))) = d" for g'
    using reads by (simp add: run_calls_read_interval setReadDelay_def)
  have iv: "timeBetweenReads G = d"
    unfolding G by (rule kept)
  have "deadband (snd (modes', setReadDelay d (snd (run_calls cs (begin' hw_init modes g)))))
      = DEFAULT_DB"
    using after by (simp add: setReadDelay_def)
  then have db: "deadband G = DEFAULT_DB"
    unfolding G by (rule run_calls_deadband)
  have set: "setReadDelay d g' = g'\<lparr>timeBetweenReads := d\<rparr>"
    by (simp add: setReadDelay_def)
  have sw: "getSwitch hw t_gate t_now G =
      (if t_gate - timeLastDigital G < ucast d then (SW_NONE, G)
       else (getSwitch_scan hw 0, G\<lparr>timeLastDigital := t_now\<rparr>))"
    by (simp add: getSwitch_def iv)
  have key: "anyKey hw t_gate t_now G =
      (if t_gate - timeLastDigital G < ucast d then (False, G)
       else (getSwitch_scan hw 0 \<noteq> SW_NONE, G\<lparr>timeLastDigital := t_now\<rparr>))"
    by (simp add: anyKey_def sw)
  have x: "getJoystickValue hw t_gate t_now SW_X G =
      (if t_gate - timeLastAnalog G < ucast d then (valueX G, G)
       else (let a = word_of_int (analogRead hw (PIN_X hw)) - offsetX G;
                 v = (if \<bar>sint a\<bar> < uint DEFAULT_DB then 0 else a)
             in (v, G\<lparr>timeLastAnalog := t_now, valueX := v\<rparr>)))"
    by (simp add: getJoystickValue_def Let_def iv db)
  have y: "getJoystickValue hw t_gate t_now SW_Y G =
      (if t_gate - timeLastAnalog G < ucast d then (valueY G, G)
       else (let a = word_of_int (analogRead hw (PIN_Y hw)) - offsetY G;
                 v = (if \<bar>sint a\<bar> < uint DEFAULT_DB then 0 else a)
             in (v, G\<lparr>timeLastAnalog := t_now, valueY := v\<rparr>)))"
    by (simp add: getJoystickValue_def Let_def iv db)
  have other: "sel \<noteq> SW_X \<and> sel \<noteq> SW_Y \<longrightarrow>
        (t_gate - timeLastAnalog G < ucast d \<longrightarrow>
           snd (getJoystickValue hw t_gate t_now sel G) = G)
      \<and> (\<not> t_gate - timeLastAnalog G < ucast d \<longrightarrow>
           getJoystickValue hw t_gate t_now sel G = (0, G\<lparr>timeLastAnalog := t_now\<rparr>))"
    using getJoystickValue_gated [of t_gate G hw t_now sel]
          getJoystickValue_open_other [where t_gate = t_gate and g = G and hw = hw
            and t_now = t_now and sel = sel]
    by (simp add: iv)
  have dir: "getJoystickDirection hw t_dir t_gate t_now sel G =
      (if t_dir - timeLastAnalog G < ucast d then (0, G)
       else (let v = fst (getJoystickValue hw t_gate t_now sel G)
             in (if v = 0 then 0 else if sint v < 0 then - 1 else 1),
             snd (getJoystickValue hw t_gate t_now sel G)))"
    using getJoystickDirection_gated [of t_dir G hw t_gate t_now sel]
          getJoystickDirection_open [of t_dir G hw t_gate t_now sel]
    by (simp add: iv)
  from set after kept iv db sw key x y other dir show ?thesis
    by (intro conjI)
qed

text \<open>
  The interval is 20 and the last samples of both domains were at time 400. At time 415
  every read holds back; at time 425, which the default interval of 100 would still
  hold back, every read samples, and the X axis at offset + 3 gives 0 under the
  deadband of 5.
\<close>

theorem config_after_begin_witness:
  "timeBetweenReads configured = 20
   \<and> deadband configured = 5
   \<and> getSwitch (bench [PIN_A] 515 520) 415 415 configured = (SW_NONE, configured)
   \<and> anyKey (bench [PIN_A] 515 520) 415 415 configured = (False, configured)
   \<and> anyKey (bench [PIN_A] 515 520) 425 425 configured
       = (True, configured\<lparr>timeLastDigital := 425\<rparr>)
   \<and> getJoystickValue (bench [PIN_A] 515 520) 415 415 SW_X configured = (18, configured)
   \<and> getJoystickValue (bench [PIN_A] 515 520) 425 425 SW_X configured
       = (0, configured\<lparr>timeLastAnalog := 425, valueX := 0\<rparr>)
   \<and> getJoystickDirection (bench [PIN_A] 515 520) 415 415 415 SW_Y configured = (0, configured)
   \<and> getJoystickDirection (bench [PIN_A] 515 520) 425 425 425 SW_Y configured
       = (1, configured\<lparr>timeLastAnalog := 425, valueY := 12\<rparr>)"
proof -
  have r: "\<forall>(c, b, ts) \<in> set [(GetJoystickValue SW_X, bench [] 512 508, 410, 410, 410)].
             is_read c"
    by simp
  have db: "DEFAULT_DB = 5"
    by (simp add: DEFAULT_DB_def)
  note held = config_after_begin [OF r configured_def,
      where hw = "bench [PIN_A] 515 520" and t_dir = 415 and t_gate = 415 and t_now = 415
        and sel = SW_Y and g' = gamepad]
  note read = config_after_begin [OF r configured_def,
      where hw = "bench [PIN_A] 515 520" and t_dir = 425 and t_gate = 425 and t_now = 425
        and sel = SW_Y and g' = gamepad]
  have "timeBetweenReads configured = 20"
    by (rule held [THEN conjunct2, THEN conjunct2, THEN conjunct2, THEN conjunct1])
  moreover have "deadband configured = 5"
    using held [THEN conjunct2, THEN conjunct2, THEN conjunct2, THEN conjunct2, THEN conjunct1] by (simp only: db)
  moreover have "getSwitch (bench [PIN_A] 515 520) 415 415 configured = (SW_NONE, configured)"
    by (simp only: held [THEN conjunct2, THEN conjunct2, THEN conjunct2, THEN conjunct2, THEN conjunct2, THEN conjunct1]) (simp add: configured_eq)
  moreover have "anyKey (bench [PIN_A] 515 520) 415 415 configured = (False, configured)"
    by (simp only: held [THEN conjunct2, THEN conjunct2, THEN conjunct2, THEN conjunct2, THEN conjunct2, THEN conjunct2, THEN conjunct1]) (simp add: configured_eq)
  moreover have "anyKey (bench [PIN_A] 515 520) 425 425 configured
      = (True, configured\<lparr>timeLastDigital := 425\<rparr>)"
    by (simp only: read [THEN conjunct2, THEN conjunct2, THEN conjunct2, THEN conjunct2, THEN conjunct2, THEN conjunct2, THEN conjunct1]) (simp add: configured_eq getSwitch_scan_bench)
  moreover have "getJoystickValue (bench [PIN_A] 515 520) 415 415 SW_X configured
      = (18, configured)"
    by (simp only: held [THEN conjunct2, THEN conjunct2, THEN conjunct2, THEN conjunct2, THEN conjunct2, THEN conjunct2, THEN conjunct2, THEN conjunct1]) (simp add: configured_eq)
  moreover have "getJoystickValue (bench [PIN_A] 515 520) 425 425 SW_X configured
      = (0, configured\<lparr>timeLastAnalog := 425, valueX := 0\<rparr>)"
    by (simp only: read [THEN conjunct2, THEN conjunct2, THEN conjunct2, THEN conjunct2, THEN conjunct2, THEN conjunct2, THEN conjunct2, THEN conjunct1]) (simp add: configured_eq db bench_def PIN_X_def)
  moreover have "getJoystickDirection (bench [PIN_A] 515 520) 415 415 415 SW_Y configured
      = (0, configured)"
    by (simp only: held [THEN conjunct2, THEN conjunct2, THEN conjunct2, THEN conjunct2, THEN conjunct2, THEN conjunct2, THEN conjunct2, THEN conjunct2, THEN conjunct2, THEN conjunct2]) (simp add: configured_eq)
  moreover have "getJoystickDirection (bench [PIN_A] 515 520) 425 425 425 SW_Y configured
      = (1, configured\<lparr>timeLastAnalog := 425, valueY := 12\<rparr>)"
    by (simp only: read [THEN conjunct2, THEN conjunct2, THEN conjunct2, THEN conjunct2, THEN conjunct2, THEN conjunct2, THEN conjunct2, THEN conjunct2, THEN conjunct2, THEN conjunct2])
      (simp add: configured_eq getJoystickValue_def bench_def PIN_Y_def)
  ultimately show ?thesis
    by (intro conjI)
qed

subsection \<open>The gate across the wrap of the clock\<close>

text \<open>
  C9. The three gates, in \<open>getSwitch\<close>, \<open>getJoystickDirection\<close> and
  \<open>getJoystickValue\<close>, hold a call back exactly when the difference of the clock
  value and the timestamp modulo \<open>2 ^ 32\<close> is below the interval. That difference
  lies between 0 and \<open>2 ^ 32 - 1\<close> and does not change when clock and timestamp move
  on by the same amount, across the wrap or not, so the order of the two values plays
  no part.
\<close>

theorem gating_is_modular:
  "(elapsed_spec t_gate (timeLastDigital g) < uint (timeBetweenReads g) \<longrightarrow>
      getSwitch hw t_gate t_now g = (SW_NONE, g))
   \<and> (\<not> elapsed_spec t_gate (timeLastDigital g) < uint (timeBetweenReads g) \<longrightarrow>
      getSwitch hw t_gate t_now g = (getSwitch_scan hw 0, g\<lparr>timeLastDigital := t_now\<rparr>))
   \<and> (elapsed_spec t_gate (timeLastAnalog g) < uint (timeBetweenReads g) \<longrightarrow>
      getJoystickValue hw t_gate t_now sel g = ((if sel = SW_X then valueX g else valueY g), g))
   \<and> (\<not> elapsed_spec t_gate (timeLastAnalog g) < uint (timeBetweenReads g) \<longrightarrow>
      timeLastAnalog (snd (getJoystickValue hw t_gate t_now sel g)) = t_now)
   \<and> (elapsed_spec t_dir (timeLastAnalog g) < uint (timeBetweenReads g) \<longrightarrow>
      getJoystickDirection hw t_dir t_gate t_now sel g = (0, g))
   \<and> (\<not> elapsed_spec t_dir (timeLastAnalog g) < uint (timeBetweenReads g) \<longrightarrow>
      snd (getJoystickDirection hw t_dir t_gate t_now sel g)
        = snd (getJoystickValue hw t_gate t_now sel g))
   \<and> elapsed_spec (now + k) (stamp + k) = elapsed_spec now stamp
   \<and> 0 \<le> elapsed_spec now stamp \<and> elapsed_spec now stamp < 2 ^ 32"
proof (intro conjI impI)
  assume "elapsed_spec t_gate (timeLastDigital g) < uint (timeBetweenReads g)"
  then show "getSwitch hw t_gate t_now g = (SW_NONE, g)"
    by (simp add: getSwitch_def gate_elapsed_spec)
next
  assume "\<not> elapsed_spec t_gate (timeLastDigital g) < uint (timeBetweenReads g)"
  then show "getSwitch hw t_gate t_now g
      = (getSwitch_scan hw 0, g\<lparr>timeLastDigital := t_now\<rparr>)"
    by (simp add: getSwitch_def gate_elapsed_spec)
next
  assume "elapsed_spec t_gate (timeLastAnalog g) < uint (timeBetweenReads g)"
  then show "getJoystickValue hw t_gate t_now sel g
      = ((if sel = SW_X then valueX g else valueY g), g)"
    by (simp add: getJoystickValue_gated gate_elapsed_spec)
next
  assume "\<not> elapsed_spec t_gate (timeLastAnalog g) < uint (timeBetweenReads g)"
  then have "\<not> t_gate - timeLastAnalog g < ucast (timeBetweenReads g)"
    by (simp add: gate_elapsed_spec)
  then show "timeLastAnalog (snd (getJoystickValue hw t_gate t_now sel g)) = t_now"
    by (rule getJoystickValue_open_stamp)
next
  assume "elapsed_spec t_dir (timeLastAnalog g) < uint (timeBetweenReads g)"
  then show "getJoystickDirection hw t_dir t_gate t_now sel g = (0, g)"
    by (simp add: getJoystickDirection_gated gate_elapsed_spec)
next
  assume "\<not> elapsed_spec t_dir (timeLastAnalog g) < uint (timeBetweenReads g)"
  then have h: "\<not> t_dir - timeLastAnalog g < ucast (timeBetweenReads g)"
    by (simp add: gate_elapsed_spec)
  show "snd (getJoystickDirection hw t_dir t_gate t_now sel g)
      = snd (getJoystickValue hw t_gate t_now sel g)"
    by (simp only: getJoystickDirection_open [OF h] snd_conv)
next
  show "elapsed_spec (now + k) (stamp + k) = elapsed_spec now stamp"
    by (rule elapsed_spec_shift)
next
  show "0 \<le> elapsed_spec now stamp"
    by (simp add: elapsed_spec_def)
next
  show "elapsed_spec now stamp < 2 ^ 32"
    by (simp add: elapsed_spec_def)
qed

text \<open>
  Both timestamps are 4294967286, ten milliseconds before the wrap. At clock value 5,
  fifteen milliseconds later and numerically below the timestamps, the three methods
  hold back; at clock value 90, a hundred milliseconds later, they read.
\<close>

theorem gating_is_modular_witness:
  "elapsed_spec 5 (timeLastDigital wrapped) = 15
   \<and> elapsed_spec 5 (timeLastAnalog wrapped) = 15
   \<and> uint (timeBetweenReads wrapped) = 100
   \<and> getSwitch (bench [PIN_A] 512 508) 5 5 wrapped = (SW_NONE, wrapped)
   \<and> getJoystickValue (bench [PIN_A] 512 508) 5 5 SW_Y wrapped = (12, wrapped)
   \<and> getJoystickDirection (bench [PIN_A] 512 508) 5 5 5 SW_Y wrapped = (0, wrapped)
   \<and> elapsed_spec 90 (timeLastDigital wrapped) = 100
   \<and> elapsed_spec 90 (timeLastAnalog wrapped) = 100
   \<and> getSwitch (bench [PIN_A] 512 508) 90 90 wrapped
       = (SW_A, wrapped\<lparr>timeLastDigital := 90\<rparr>)
   \<and> timeLastAnalog (snd (getJoystickValue (bench [PIN_A] 512 508) 90 90 SW_Y wrapped)) = 90"
proof -
  have e: "elapsed_spec 5 (timeLastDigital wrapped) = 15"
      "elapsed_spec 5 (timeLastAnalog wrapped) = 15"
      "elapsed_spec 90 (timeLastDigital wrapped) = 100"
      "elapsed_spec 90 (timeLastAnalog wrapped) = 100"
    by (simp_all add: wrapped_eq elapsed_spec_def)
  have iv: "uint (timeBetweenReads wrapped) = 100"
    by (simp add: wrapped_eq)
  have v: "valueY wrapped = 12"
    by (simp add: wrapped_eq)
  show ?thesis
    using gating_is_modular [where t_gate = 5 and t_dir = 5 and t_now = 5 and g = wrapped
            and hw = "bench [PIN_A] 512 508" and sel = SW_Y and now = 5 and k = 0
            and stamp = 0]
          gating_is_modular [where t_gate = 90 and t_dir = 90 and t_now = 90 and g = wrapped
            and hw = "bench [PIN_A] 512 508" and sel = SW_Y and now = 5 and k = 0
            and stamp = 0]
    by (simp add: e iv v getSwitch_scan_bench)
qed

end
